theory Spec2Isabelle
  imports Main "HOL-Library.Sublist"
begin

section \<open>Python values used by \<^verbatim>\<open>models/job.py\<close>\<close>

text \<open>
  Exceptions are values. \<open>FileNotFoundError f\<close> is the exception that
  \<^verbatim>\<open>move_to_data\<close> raises itself for the required field \<open>f\<close>; \<open>OSError p\<close> and
  \<open>FileExistsError p\<close> are failures of the storage layer and of the filesystem calls at
  path \<open>p\<close>, and \<open>SuspiciousFileOperation n\<close> is the storage's refusal of a name \<open>n\<close> that
  leaves its root.
\<close>

datatype error =
    AssertionError
  | AttributeError
  | FileNotFoundError string
  | IndexError
  | TypeError
  | ValueError
  | OSError string
  | FileExistsError string
  | SuspiciousFileOperation string

text \<open>\<^verbatim>\<open>str(n)\<close> for an integer: its decimal rendering.\<close>

definition digit_char :: "nat \<Rightarrow> char" where
  "digit_char d = ''0123456789'' ! d"

fun digits_nat :: "nat \<Rightarrow> string" where
  "digits_nat n =
     (if n < 10 then [digit_char n] else digits_nat (n div 10) @ [digit_char (n mod 10)])"

declare digits_nat.simps [simp del]

definition str_int :: "int \<Rightarrow> string" where
  "str_int i = (if i < 0 then CHR ''-'' # digits_nat (nat (- i)) else digits_nat (nat i))"

text \<open>\<^verbatim>\<open>str(instance.id)\<close>, where the id may still be \<^verbatim>\<open>None\<close>.\<close>

definition str_id :: "int option \<Rightarrow> string" where
  "str_id v = (case v of None \<Rightarrow> ''None'' | Some i \<Rightarrow> str_int i)"

text \<open>Truth values of Python objects: \<^verbatim>\<open>None\<close>, \<^verbatim>\<open>0\<close> and the empty list are false.\<close>

definition truthy_int :: "int option \<Rightarrow> bool" where
  "truthy_int v = (case v of None \<Rightarrow> False | Some n \<Rightarrow> n \<noteq> 0)"

definition truthy_list :: "'a list option \<Rightarrow> bool" where
  "truthy_list v = (case v of None \<Rightarrow> False | Some xs \<Rightarrow> xs \<noteq> [])"

definition truthy_str :: "string option \<Rightarrow> bool" where
  "truthy_str v = (case v of None \<Rightarrow> False | Some s \<Rightarrow> s \<noteq> [])"

text \<open>\<^verbatim>\<open>a or b\<close> on an optional string \<open>a\<close>.\<close>

definition or_else :: "string option \<Rightarrow> string \<Rightarrow> string" where
  "or_else a b = (if truthy_str a then the a else b)"

text \<open>
  \<^verbatim>\<open>os.path.join(a, b)\<close> and \<^verbatim>\<open>os.path.basename(p)\<close> of \<^verbatim>\<open>posixpath\<close>: an absolute
  second component replaces the first; a separator is inserted unless the first component
  is empty or already ends with one.
\<close>

definition path_join :: "string \<Rightarrow> string \<Rightarrow> string" where
  "path_join a b =
     (if prefix ''/'' b then b
      else if a = [] \<or> suffix ''/'' a then a @ b
      else a @ ''/'' @ b)"

definition basename :: "string \<Rightarrow> string" where
  "basename p = rev (takeWhile (\<lambda>c. c \<noteq> CHR ''/'') (rev p))"

text \<open>\<^verbatim>\<open>str.lower()\<close> on ASCII letters.\<close>

definition lower_char :: "char \<Rightarrow> char" where
  "lower_char c =
     (case map_of (zip ''ABCDEFGHIJKLMNOPQRSTUVWXYZ'' ''abcdefghijklmnopqrstuvwxyz'') c of
        None \<Rightarrow> c
      | Some l \<Rightarrow> l)"

definition lower :: "string \<Rightarrow> string" where
  "lower s = map lower_char s"

text \<open>\<^verbatim>\<open>rnd.randrange(a, b)\<close>: the raw draw \<open>r\<close> of the generator selects a value of \<open>[a, b)\<close>.\<close>

definition randrange :: "int \<Rightarrow> int \<Rightarrow> nat \<Rightarrow> int" where
  "randrange a b r = a + int r mod (b - a)"

section \<open>Data model\<close>

text \<open>
  A \<^verbatim>\<open>datetime\<close> with the components that \<^verbatim>\<open>strftime("%y%m%d%H%M")\<close> reads.
  Python only builds datetimes with \<open>1 \<le> month \<le> 12\<close>, \<open>1 \<le> day \<le> 31\<close>, \<open>hour < 24\<close>
  and \<open>minute < 60\<close>.
\<close>

record datetime =
  year :: nat
  month :: nat
  day :: nat
  hour :: nat
  minute :: nat

definition valid_datetime :: "datetime \<Rightarrow> bool" where
  "valid_datetime t \<longleftrightarrow>
     1 \<le> year t \<and> year t \<le> 9999 \<and> 1 \<le> month t \<and> month t \<le> 12 \<and>
     1 \<le> day t \<and> day t \<le> 31 \<and> hour t < 24 \<and> minute t < 60"

text \<open>
  The instance dictionary of a job. \<open>job_id\<close> is the attribute \<^verbatim>\<open>id\<close>; \<open>tmp_id\<close> and
  \<open>tmp_files\<close> are the attributes \<^verbatim>\<open>_tmp_id\<close> and \<^verbatim>\<open>_tmp_files\<close> when the instance
  itself carries them (\<open>None\<close>: not in the instance dictionary); \<open>file_names f\<close> is the
  \<^verbatim>\<open>name\<close> of the file held by the file field \<open>f\<close>.
\<close>

record job =
  job_id :: "int option"
  tmp_id :: "int option"
  tmp_files :: "string list option"
  job_identifier :: string
  timestamp :: "datetime option"
  closure :: "datetime option"
  file_names :: "string \<Rightarrow> string option"

text \<open>
  A callable stored in a class attribute or in \<^verbatim>\<open>upload_to\<close>: one of the two built-in
  path functions, or a user function whose bytecode differs from both, given by its
  result on the job's data and the file name.
\<close>

datatype callable = JobData | JobResults | UserFn "job \<Rightarrow> string \<Rightarrow> string"

text \<open>\<^verbatim>\<open>f.__code__.co_code\<close>: the bytecode of a callable, up to equality.\<close>

datatype bytecode = JobDataCode | JobResultsCode | OtherCode

definition co_code :: "callable \<Rightarrow> bytecode" where
  "co_code c = (case c of JobData \<Rightarrow> JobDataCode | JobResults \<Rightarrow> JobResultsCode | UserFn g \<Rightarrow> OtherCode)"

text \<open>The attributes \<^verbatim>\<open>upload_to_data\<close>, \<^verbatim>\<open>upload_to_results\<close>: absent, a prefix, or a callable.\<close>

datatype attr = ANone | AStr string | ACallable callable

text \<open>The attribute \<^verbatim>\<open>job_root\<close>: absent, a prefix, or a callable without arguments.\<close>

datatype root_attr = RNone | RStr string | RCallable "job \<Rightarrow> string"

text \<open>
  The class of a job: its name and class attributes. \<open>required_user_files\<close> and
  \<open>cls_tmp_id\<close> are \<open>None\<close> while the class has no such attribute; \<open>field_upload_to f\<close> is
  the \<^verbatim>\<open>upload_to\<close> of the file field \<open>f\<close>; \<open>post_save_connected\<close> says that
  \<^verbatim>\<open>move_to_data\<close> receives the class's \<^verbatim>\<open>post_save\<close> signal.
\<close>

record job_class =
  class_name :: string
  cls_job_root :: root_attr
  upload_to_data :: attr
  upload_to_results :: attr
  required_user_files :: "string list option"
  cls_tmp_id :: "int option"
  field_upload_to :: "string \<Rightarrow> callable"
  post_save_connected :: bool

text \<open>
  The first argument of the path functions: a job, or a data file (an \<^verbatim>\<open>ADataFile\<close>) with
  the \<^verbatim>\<open>upload_to_data\<close> of its own class and the data of its owning job.
\<close>

datatype model_instance = AJob job | ADataFile attr job

text \<open>
  The module \<^verbatim>\<open>settings\<close> is not part of the sources; its values are parameters, and
  so are the working directory \<open>CWD\<close> of the process, an absolute path against which the
  filesystem calls resolve relative paths, and two operations of the libraries:
  \<open>datetime_add\<close> is \<^verbatim>\<open>datetime + timedelta\<close>, with the time to live counted in seconds,
  and \<open>get_available_name files name\<close> is the name under which the storage saves a file
  when \<open>name\<close> is already taken.
\<close>

record env =
  APP_ROOT :: string
  MEDIA_ROOT :: string
  CWD :: string
  TTL :: int
  datetime_add :: "datetime \<Rightarrow> int \<Rightarrow> datetime"
  get_available_name :: "(string \<Rightarrow> string option) \<Rightarrow> string \<Rightarrow> string"

section \<open>Path resolution\<close>

definition TEMPORARY_JOB_FOLDER :: string where
  "TEMPORARY_JOB_FOLDER = ''tmp''"

text \<open>\<^verbatim>\<open>getattr(instance, '_tmp_id', None)\<close>: the instance's own value, else the class's.\<close>

definition getattr_tmp_id :: "job_class \<Rightarrow> job \<Rightarrow> int option" where
  "getattr_tmp_id cls inst = (case tmp_id inst of Some v \<Rightarrow> Some v | None \<Rightarrow> cls_tmp_id cls)"

text \<open>The head of \<^verbatim>\<open>root_job\<close> when \<^verbatim>\<open>job_root\<close> is not a callable (lines 46 to 52).\<close>

definition root_head :: "env \<Rightarrow> job_class \<Rightarrow> string" where
  "root_head e cls =
     (case cls_job_root cls of
        RStr s \<Rightarrow> if s \<noteq> [] then s else path_join (APP_ROOT e) (lower (class_name cls))
      | _ \<Rightarrow> path_join (APP_ROOT e) (lower (class_name cls)))"

text \<open>The condition of line 53 and the tail of lines 53 to 59.\<close>

definition uses_tmp :: "job_class \<Rightarrow> job \<Rightarrow> bool" where
  "uses_tmp cls inst \<longleftrightarrow>
     \<not> truthy_int (job_id inst) \<or>
     (truthy_int (job_id inst) \<and> truthy_int (getattr_tmp_id cls inst) \<and>
      \<not> truthy_list (tmp_files inst))"

definition root_tail :: "job_class \<Rightarrow> job \<Rightarrow> error + string" where
  "root_tail cls inst =
     (if uses_tmp cls inst then
        (case getattr_tmp_id cls inst of
           None \<Rightarrow> Inl AssertionError
         | Some t \<Rightarrow> Inr (path_join TEMPORARY_JOB_FOLDER (str_int t)))
      else Inr (str_id (job_id inst)))"

definition root_job :: "env \<Rightarrow> job_class \<Rightarrow> job \<Rightarrow> error + string" where
  "root_job e cls inst =
     (case cls_job_root cls of
        RCallable f \<Rightarrow> Inr (f inst)
      | _ \<Rightarrow>
          (case root_tail cls inst of
             Inl err \<Rightarrow> Inl err
           | Inr tail \<Rightarrow> Inr (path_join (root_head e cls) tail)))"

definition job_root :: "env \<Rightarrow> job_class \<Rightarrow> job \<Rightarrow> string \<Rightarrow> error + string" where
  "job_root e cls inst filename =
     (case root_job e cls inst of
        Inl err \<Rightarrow> Inl err
      | Inr root \<Rightarrow> Inr (path_join root filename))"

text \<open>
  \<^verbatim>\<open>job_data\<close>, \<^verbatim>\<open>job_results\<close> and \<^verbatim>\<open>_user_path\<close>. A callable attribute is a bound
  method, so calling it with the file name calls the function on the same instance: when
  the attribute is \<^verbatim>\<open>job_data\<close> or \<^verbatim>\<open>job_results\<close> this is a recursive call, which
  line 23 guards by comparing the bytecode of the callable with that of both functions.
\<close>

function job_data :: "env \<Rightarrow> job_class \<Rightarrow> model_instance \<Rightarrow> string \<Rightarrow> error + string"
  and job_results :: "env \<Rightarrow> job_class \<Rightarrow> model_instance \<Rightarrow> string \<Rightarrow> error + string"
  and user_path :: "env \<Rightarrow> job_class \<Rightarrow> model_instance \<Rightarrow> attr \<Rightarrow> string \<Rightarrow> error + string option"
where
  "job_data e cls inst filename =
     (case root_job e cls (case inst of AJob j \<Rightarrow> j | ADataFile a j \<Rightarrow> j) of
        Inl err \<Rightarrow> Inl err
      | Inr head \<Rightarrow>
          (case user_path e cls inst
                  (case inst of AJob j \<Rightarrow> upload_to_data cls | ADataFile a j \<Rightarrow> a) filename of
             Inl err \<Rightarrow> Inl err
           | Inr t \<Rightarrow> Inr (path_join head (or_else t (path_join ''data'' filename)))))"
| "job_results e cls inst filename =
     (case inst of
        ADataFile a j \<Rightarrow> Inl AttributeError
      | AJob j \<Rightarrow>
          (case user_path e cls inst (upload_to_results cls) filename of
             Inl err \<Rightarrow> Inl err
           | Inr t \<Rightarrow>
               (case root_job e cls j of
                  Inl err \<Rightarrow> Inl err
                | Inr root \<Rightarrow>
                    Inr (path_join root (or_else t (path_join ''results'' filename))))))"
| "user_path e cls inst attribute_or_prefix filename =
     (case attribute_or_prefix of
        ANone \<Rightarrow> Inr None
      | AStr s \<Rightarrow> if s \<noteq> [] then Inr (Some (path_join s filename)) else Inr None
      | ACallable c \<Rightarrow>
          if co_code c \<noteq> co_code JobData \<and> co_code c \<noteq> co_code JobResults then
            (case c of
               JobData \<Rightarrow> map_sum id Some (job_data e cls inst filename)
             | JobResults \<Rightarrow> map_sum id Some (job_results e cls inst filename)
             | UserFn g \<Rightarrow>
                 Inr (Some (g (case inst of AJob j \<Rightarrow> j | ADataFile a j \<Rightarrow> j) filename)))
          else Inr None)"
  by pat_completeness auto

termination
  by (relation "measure (\<lambda>x. case x of Inl _ \<Rightarrow> 1 | Inr (Inl _) \<Rightarrow> 1 | Inr (Inr _) \<Rightarrow> 0)")
     (auto simp: co_code_def)

declare job_data.simps [simp del] job_results.simps [simp del] user_path.simps [simp del]

section \<open>The manager\<close>

text \<open>
  \<^verbatim>\<open>JobWithRequiredUserFilesManager.contribute_to_class\<close>, which Django calls once when the
  model class is built: it sets the class attributes and connects \<^verbatim>\<open>move_to_data\<close>.
  \<open>r\<close> is the raw draw of the random generator.
\<close>

definition contribute_to_class :: "job_class \<Rightarrow> nat \<Rightarrow> job_class" where
  "contribute_to_class model r =
     model\<lparr>required_user_files :=
              Some (case required_user_files model of None \<Rightarrow> [] | Some fs \<Rightarrow> fs),
            cls_tmp_id := Some (randrange (10 ^ 6) (10 ^ 7) r),
            post_save_connected := True\<rparr>"

section \<open>Storage, filesystem and persistence layer\<close>

text \<open>
  The world a save acts on: the job instance, the files (absolute path to content) and
  directories of the filesystem, and the last identity the persistence layer has given
  out.
\<close>

record world =
  w_job :: job
  w_files :: "string \<Rightarrow> string option"
  w_dirs :: "string set"
  w_last_id :: nat

text \<open>Directory paths are compared without trailing separators.\<close>

definition norm_dir :: "string \<Rightarrow> string" where
  "norm_dir p = rev (dropWhile (\<lambda>c. c = CHR ''/'') (rev p))"

text \<open>\<open>under root p\<close>: the path \<open>p\<close> is the folder \<open>root\<close> or lies below it.\<close>

definition under :: "string \<Rightarrow> string \<Rightarrow> bool" where
  "under root p \<longleftrightarrow> norm_dir p = norm_dir root \<or> prefix (norm_dir root @ ''/'') p"

fun ancestors_from :: "string \<Rightarrow> string \<Rightarrow> string list" where
  "ancestors_from acc [] = []"
| "ancestors_from acc (c # cs) =
     (if c = CHR ''/'' \<and> acc \<noteq> [] then [acc] else []) @ ancestors_from (acc @ [c]) cs"

definition ancestors :: "string \<Rightarrow> string list" where
  "ancestors p = ancestors_from [] p"

text \<open>
  How paths are resolved. \<^verbatim>\<open>shutil.rmtree\<close> and \<^verbatim>\<open>os.makedirs\<close> take a filesystem path,
  which is resolved against the working directory (\<open>abspath\<close>; paths are taken as written,
  no \<^verbatim>\<open>..\<close> is folded). The storage takes a name, which it resolves against
  \<^verbatim>\<open>MEDIA_ROOT\<close> and refuses when the result is not inside \<^verbatim>\<open>MEDIA_ROOT\<close>
  (\<open>storage_path\<close>). A path exists when a file or a directory is there.
\<close>

definition abspath :: "env \<Rightarrow> string \<Rightarrow> string" where
  "abspath e p = path_join (CWD e) p"

definition storage_path :: "env \<Rightarrow> string \<Rightarrow> error + string" where
  "storage_path e name =
     (let p = abspath e (path_join (MEDIA_ROOT e) name) in
      if under (abspath e (MEDIA_ROOT e)) p then Inr p
      else Inl (SuspiciousFileOperation name))"

definition path_exists :: "world \<Rightarrow> string \<Rightarrow> bool" where
  "path_exists w p \<longleftrightarrow> w_files w p \<noteq> None \<or> norm_dir p \<in> w_dirs w"

text \<open>
  The calls into Django's file storage and into \<^verbatim>\<open>shutil\<close> and \<^verbatim>\<open>os\<close>.
  \<open>storage_save e name src\<close> is \<^verbatim>\<open>storage.save(name, file)\<close> for a file object whose
  content the storage holds under the name \<open>src\<close>: it fails when there is no content to
  read, saves under \<open>name\<close> when nothing exists there and under another name of the
  storage's choice otherwise, and creates the directories above the saved file.
  Deleting a missing file is no error; \<^verbatim>\<open>rmtree\<close> fails on a directory that does not
  exist; \<^verbatim>\<open>makedirs\<close> fails on an existing path unless it is a directory and
  \<^verbatim>\<open>exist_ok\<close> is set.
\<close>

definition storage_save :: "env \<Rightarrow> string \<Rightarrow> string \<Rightarrow> world \<Rightarrow> error + world" where
  "storage_save e name src w =
     (case storage_path e src of
        Inl err \<Rightarrow> Inl err
      | Inr src_path \<Rightarrow>
          (case w_files w src_path of
             None \<Rightarrow> Inl (OSError src)
           | Some content \<Rightarrow>
               (case storage_path e name of
                  Inl err \<Rightarrow> Inl err
                | Inr path \<Rightarrow>
                    (case storage_path e
                            (if path_exists w path then get_available_name e (w_files w) name
                             else name) of
                       Inl err \<Rightarrow> Inl err
                     | Inr stored_path \<Rightarrow>
                         Inr (w\<lparr>w_files := (w_files w)(stored_path \<mapsto> content),
                                w_dirs := w_dirs w \<union> set (ancestors stored_path)\<rparr>)))))"

definition storage_delete :: "env \<Rightarrow> string \<Rightarrow> world \<Rightarrow> error + world" where
  "storage_delete e name w =
     (case storage_path e name of
        Inl err \<Rightarrow> Inl err
      | Inr path \<Rightarrow> Inr (w\<lparr>w_files := (w_files w)(path := None)\<rparr>))"

definition rmtree :: "env \<Rightarrow> string \<Rightarrow> world \<Rightarrow> error + world" where
  "rmtree e root w =
     (if norm_dir (abspath e root) \<notin> w_dirs w then Inl (OSError root)
      else Inr (w\<lparr>w_files := (\<lambda>p. if under (abspath e root) p then None else w_files w p),
                  w_dirs := {d \<in> w_dirs w. \<not> under (abspath e root) d}\<rparr>))"

definition makedirs :: "env \<Rightarrow> string \<Rightarrow> bool \<Rightarrow> world \<Rightarrow> error + world" where
  "makedirs e path exist_ok w =
     (if w_files w (norm_dir (abspath e path)) \<noteq> None then Inl (FileExistsError path)
      else if norm_dir (abspath e path) \<in> w_dirs w then
        (if exist_ok then Inr w else Inl (FileExistsError path))
      else Inr (w\<lparr>w_dirs := w_dirs w \<union> {norm_dir (abspath e path)} \<union>
                            set (ancestors (norm_dir (abspath e path)))\<rparr>))"

section \<open>Promotion of the required files\<close>

text \<open>\<^verbatim>\<open>file.field.upload_to(instance, filename)\<close> for a file field of a job.\<close>

definition call_upload_to ::
  "env \<Rightarrow> job_class \<Rightarrow> job \<Rightarrow> callable \<Rightarrow> string \<Rightarrow> error + string" where
  "call_upload_to e cls inst c filename =
     (case c of
        JobData \<Rightarrow> job_data e cls (AJob inst) filename
      | JobResults \<Rightarrow> job_results e cls (AJob inst) filename
      | UserFn g \<Rightarrow> Inr (g inst filename))"

text \<open>
  The body of the loop of \<^verbatim>\<open>move_to_data\<close> (lines 132 to 143) for one declared field.
  An exception leaves the world as the body had changed it so far.
\<close>

definition promote_field :: "env \<Rightarrow> job_class \<Rightarrow> string \<Rightarrow> world \<Rightarrow> error option \<times> world" where
  "promote_field e cls field w =
     (let file = file_names (w_job w) field in
      if \<not> truthy_str file then (Some (FileNotFoundError field), w)
      else
        let old_filename = the file in
        case call_upload_to e cls (w_job w) (field_upload_to cls field)
               (basename old_filename) of
          Inl err \<Rightarrow> (Some err, w)
        | Inr new_filename \<Rightarrow>
            (case storage_save e new_filename old_filename w of
               Inl err \<Rightarrow> (Some err, w)
             | Inr w1 \<Rightarrow>
                 let w2 = w1\<lparr>w_job := (w_job w1)
                               \<lparr>file_names := (file_names (w_job w1))(field \<mapsto> new_filename)\<rparr>\<rparr>
                 in
                 (case storage_delete e old_filename w2 of
                    Inl err \<Rightarrow> (Some err, w2)
                  | Inr w3 \<Rightarrow>
                      (case tmp_files (w_job w3) of
                         None \<Rightarrow> (Some AttributeError, w3)
                       | Some pending \<Rightarrow>
                           if field \<notin> set pending then (Some ValueError, w3)
                           else (None, w3\<lparr>w_job := (w_job w3)
                                             \<lparr>tmp_files := Some (remove1 field pending)\<rparr>\<rparr>)))))"

text \<open>The loop of line 131 over the declared fields, which stops at the first exception.\<close>

fun promote :: "env \<Rightarrow> job_class \<Rightarrow> string list \<Rightarrow> world \<Rightarrow> error option \<times> world" where
  "promote e cls [] w = (None, w)"
| "promote e cls (field # rest) w =
     (case promote_field e cls field w of
        (Some err, w1) \<Rightarrow> (Some err, w1)
      | (None, w1) \<Rightarrow> promote e cls rest w1)"

text \<open>Line 130: the pending list becomes a copy of the declared list.\<close>

definition set_tmp_files :: "string list \<Rightarrow> world \<Rightarrow> world" where
  "set_tmp_files required w = w\<lparr>w_job := (w_job w)\<lparr>tmp_files := Some required\<rparr>\<rparr>"

definition move_to_data :: "env \<Rightarrow> job_class \<Rightarrow> bool \<Rightarrow> world \<Rightarrow> error option \<times> world" where
  "move_to_data e cls created w =
     (case required_user_files cls of
        None \<Rightarrow> (Some AttributeError, w)
      | Some required \<Rightarrow>
          if created then
            (case promote e cls required (set_tmp_files required w) of
               (Some err, w1) \<Rightarrow> (Some err, w1)
             | (None, w1) \<Rightarrow>
                 (case root_job e cls (w_job w1) of
                    Inl err \<Rightarrow> (Some err, w1)
                  | Inr root \<Rightarrow>
                      (case rmtree e root w1 of
                         Inl err \<Rightarrow> (Some err, w1)
                       | Inr w2 \<Rightarrow> (None, w2\<lparr>w_job := (w_job w2)\<lparr>tmp_id := Some 0\<rparr>\<rparr>))))
          else (None, w))"

section \<open>Saving a job\<close>

text \<open>
  \<^verbatim>\<open>super(AJob, self).save()\<close>, which is Django's \<^verbatim>\<open>Model.save\<close>. A job without identity
  is inserted: it receives the next identity and, as \<^verbatim>\<open>timestamp\<close> is declared with
  \<^verbatim>\<open>auto_now_add\<close>, the current time \<open>now\<close>; then the \<^verbatim>\<open>post_save\<close> signal is sent with
  \<^verbatim>\<open>created=True\<close>. A job with an identity is updated and the signal is sent with
  \<^verbatim>\<open>created=False\<close>. The files of the job are taken as stored under their current names
  when the save starts; the stored row itself is not modelled.
\<close>

definition insert_row :: "datetime \<Rightarrow> world \<Rightarrow> world" where
  "insert_row now w =
     w\<lparr>w_job := (w_job w)\<lparr>job_id := Some (int (Suc (w_last_id w))), timestamp := Some now\<rparr>,
       w_last_id := Suc (w_last_id w)\<rparr>"

definition post_save :: "env \<Rightarrow> job_class \<Rightarrow> bool \<Rightarrow> world \<Rightarrow> error option \<times> world" where
  "post_save e cls created w =
     (if post_save_connected cls then move_to_data e cls created w else (None, w))"

definition super_save :: "env \<Rightarrow> job_class \<Rightarrow> datetime \<Rightarrow> world \<Rightarrow> error option \<times> world" where
  "super_save e cls now w =
     (case job_id (w_job w) of
        None \<Rightarrow> post_save e cls True (insert_row now w)
      | Some _ \<Rightarrow> post_save e cls False w)"

text \<open>\<^verbatim>\<open>AJob.save\<close> (lines 238 to 246).\<close>

definition save :: "env \<Rightarrow> job_class \<Rightarrow> datetime \<Rightarrow> bool \<Rightarrow> world \<Rightarrow> error option \<times> world" where
  "save e cls now results_exist_ok w =
     (let created = \<not> truthy_int (job_id (w_job w)) in
      case super_save e cls now w of
        (Some err, w1) \<Rightarrow> (Some err, w1)
      | (None, w1) \<Rightarrow>
          if created then
            (case timestamp (w_job w1) of
               None \<Rightarrow> (Some TypeError, w1)
             | Some t \<Rightarrow>
                 (case super_save e cls now
                         (w1\<lparr>w_job := (w_job w1)\<lparr>closure := Some (datetime_add e t (TTL e))\<rparr>\<rparr>) of
                    (Some err, w2) \<Rightarrow> (Some err, w2)
                  | (None, w2) \<Rightarrow>
                      (case job_results e cls (AJob (w_job w2)) [] of
                         Inl err \<Rightarrow> (Some err, w2)
                       | Inr results \<Rightarrow>
                           (case makedirs e (path_join (MEDIA_ROOT e) results) results_exist_ok
                                   w2 of
                              Inl err \<Rightarrow> (Some err, w2)
                            | Inr w3 \<Rightarrow> (None, w3)))))
          else (None, w1))"

section \<open>The default slug\<close>

definition SLUG_MAX_LENGTH :: nat where
  "SLUG_MAX_LENGTH = 32"

definition SLUG_RND_LENGTH :: nat where
  "SLUG_RND_LENGTH = 6"

text \<open>\<^verbatim>\<open>"%02d"\<close>, and \<^verbatim>\<open>strftime("%y%m%d%H%M")\<close>.\<close>

definition two_digits :: "nat \<Rightarrow> string" where
  "two_digits n = (if n < 10 then CHR ''0'' # digits_nat n else digits_nat n)"

definition strftime_ymdHM :: "datetime \<Rightarrow> string" where
  "strftime_ymdHM t =
     two_digits (year t mod 100) @ two_digits (month t) @ two_digits (day t) @
     two_digits (hour t) @ two_digits (minute t)"

text \<open>
  \<^verbatim>\<open>AJob.slug_default\<close> (lines 198 to 208); \<open>r\<close> is the raw draw that \<^verbatim>\<open>randrange\<close> would
  use in the truncating branch.
\<close>

definition slug_default :: "job_class \<Rightarrow> job \<Rightarrow> nat \<Rightarrow> error + string" where
  "slug_default cls self r =
     (case (if job_identifier self \<noteq> []
            then Inr (take (min (length (job_identifier self)) SLUG_RND_LENGTH)
                        (job_identifier self))
            else (case class_name cls of [] \<Rightarrow> Inl IndexError | c # _ \<Rightarrow> Inr [c])) of
        Inl err \<Rightarrow> Inl err
      | Inr slug0 \<Rightarrow>
          (case timestamp self of
             None \<Rightarrow> Inl AttributeError
           | Some t \<Rightarrow>
               let slug = slug0 @ strftime_ymdHM t in
               if length slug > SLUG_MAX_LENGTH
               then Inr (take (SLUG_MAX_LENGTH - SLUG_RND_LENGTH) slug @
                         str_int (randrange (10 ^ (SLUG_RND_LENGTH - 1)) (10 ^ SLUG_RND_LENGTH) r))
               else Inr slug))"

section \<open>Vocabulary of the properties and example job types\<close>

text \<open>The class declares a callable \<^verbatim>\<open>job_root\<close>, which line 48 returns as the whole path.\<close>

definition root_callable :: "job_class \<Rightarrow> bool" where
  "root_callable cls = (case cls_job_root cls of RCallable f \<Rightarrow> True | _ \<Rightarrow> False)"

text \<open>
  A job as the model constructor leaves it: no identity, timestamp or closure yet, and
  neither \<^verbatim>\<open>_tmp_id\<close> nor \<^verbatim>\<open>_tmp_files\<close> of its own.
\<close>

definition new_job :: "string \<Rightarrow> (string \<Rightarrow> string option) \<Rightarrow> job" where
  "new_job ident names =
     \<lparr>job_id = None, tmp_id = None, tmp_files = None, job_identifier = ident,
      timestamp = None, closure = None, file_names = names\<rparr>"

text \<open>The first of May 2023, 10:30.\<close>

definition example_time :: datetime where
  "example_time = \<lparr>year = 2023, month = 5, day = 1, hour = 10, minute = 30\<rparr>"

text \<open>
  A job type with one required file field, whose \<^verbatim>\<open>upload_to\<close> is \<^verbatim>\<open>job_data\<close>, as its
  class body declares it; and the same type with a callable \<^verbatim>\<open>job_root\<close>.
\<close>

definition MyJob :: job_class where
  "MyJob = \<lparr>class_name = ''MyJob'', cls_job_root = RNone, upload_to_data = ANone,
             upload_to_results = ANone, required_user_files = Some [''upload''],
             cls_tmp_id = None, field_upload_to = (\<lambda>f. JobData),
             post_save_connected = False\<rparr>"

definition fixed_root :: "job \<Rightarrow> string" where
  "fixed_root j = ''/media/custom''"

definition RootedJob :: job_class where
  "RootedJob = MyJob\<lparr>class_name := ''RootedJob'', cls_job_root := RCallable fixed_root\<rparr>"

text \<open>
  Settings with an absolute \<^verbatim>\<open>APP_ROOT\<close> below \<^verbatim>\<open>MEDIA_ROOT\<close>, a working directory
  elsewhere and a time to live of one day; the example addition moves the day of the
  month, which is enough for the dates used below, and the example storage appends
  \<^verbatim>\<open>_1\<close> to a name that is taken.
\<close>

definition example_env :: env where
  "example_env = \<lparr>APP_ROOT = ''/media/jobs'', MEDIA_ROOT = ''/media'', CWD = ''/srv/app'',
                   TTL = 86400,
                   datetime_add = (\<lambda>t s. t\<lparr>day := day t + nat (s div 86400)\<rparr>),
                   get_available_name = (\<lambda>files name. name @ ''_1'')\<rparr>"

text \<open>
  The content that the storage holds under a name; none under a name that it refuses.
\<close>

definition stored_content :: "env \<Rightarrow> world \<Rightarrow> string \<Rightarrow> string option" where
  "stored_content e w name =
     (case storage_path e name of Inl err \<Rightarrow> None | Inr p \<Rightarrow> w_files w p)"













text \<open>
  The example job types once the manager has contributed to them with the raw draw 234567,
  that is, with \<^verbatim>\<open>_tmp_id = 1234567\<close>: the plain type, the type with a callable root, the
  type with a data subfolder of the user's, a type whose subfolder attributes are the
  built-in functions themselves, and a type with two required files.
\<close>

definition MyJobModel :: job_class where
  "MyJobModel = contribute_to_class MyJob 234567"

definition RootedJobModel :: job_class where
  "RootedJobModel = contribute_to_class RootedJob 234567"


definition AliasedJobModel :: job_class where
  "AliasedJobModel =
     contribute_to_class
       (MyJob\<lparr>class_name := ''AliasedJob'', upload_to_data := ACallable JobData,
               upload_to_results := ACallable JobResults\<rparr>) 234567"

definition PairJobModel :: job_class where
  "PairJobModel =
     contribute_to_class
       (MyJob\<lparr>class_name := ''PairJob'',
               required_user_files := Some [''upload'', ''config'']\<rparr>) 234567"

text \<open>
  Example jobs: one whose promotion is under way, with identity 5 and one field still
  pending, and one whose promotion is complete.
\<close>

definition pending_job :: job where
  "pending_job = (new_job ''abcdef123'' Map.empty)\<lparr>job_id := Some 5, tmp_files := Some [''upload'']\<rparr>"

definition promoted_job :: job where
  "promoted_job =
     (new_job ''abcdef123'' Map.empty)\<lparr>job_id := Some 5, tmp_id := Some 0, tmp_files := Some []\<rparr>"

text \<open>
  Example worlds: a new job with its uploaded file in the temporary folder; the same for
  the type with two required files, the second of which was never uploaded; a job of
  the type with a callable root, just inserted with identity 5; and a job of the type
  with a data subfolder of the user's, just inserted with identity 5.
\<close>

definition example_world :: world where
  "example_world =
     \<lparr>w_job = new_job ''abcdef123''
                [''upload'' \<mapsto> ''/media/jobs/myjob/tmp/1234567/data/a.txt''],
      w_files = [''/media/jobs/myjob/tmp/1234567/data/a.txt'' \<mapsto> ''content''],
      w_dirs = {''/media'', ''/media/jobs'', ''/media/jobs/myjob'', ''/media/jobs/myjob/tmp'',
                ''/media/jobs/myjob/tmp/1234567'', ''/media/jobs/myjob/tmp/1234567/data''},
      w_last_id = 4\<rparr>"

definition pair_world :: world where
  "pair_world =
     \<lparr>w_job = new_job ''abcdef123''
                [''upload'' \<mapsto> ''/media/jobs/pairjob/tmp/1234567/data/a.txt''],
      w_files = [''/media/jobs/pairjob/tmp/1234567/data/a.txt'' \<mapsto> ''content''],
      w_dirs = {''/media'', ''/media/jobs'', ''/media/jobs/pairjob'', ''/media/jobs/pairjob/tmp'',
                ''/media/jobs/pairjob/tmp/1234567'', ''/media/jobs/pairjob/tmp/1234567/data''},
      w_last_id = 4\<rparr>"

definition rooted_world :: world where
  "rooted_world =
     \<lparr>w_job = (new_job ''abcdef123'' [''upload'' \<mapsto> ''/media/custom/data/a.txt''])
                \<lparr>job_id := Some 5, timestamp := Some example_time\<rparr>,
      w_files = [''/media/custom/data/a.txt'' \<mapsto> ''content''],
      w_dirs = {''/media'', ''/media/custom'', ''/media/custom/data''},
      w_last_id = 5\<rparr>"


text \<open>
  Settings with a relative \<^verbatim>\<open>APP_ROOT\<close>, and a job just inserted with identity 5 whose
  uploaded file the storage keeps below \<^verbatim>\<open>MEDIA_ROOT\<close>.
\<close>

definition relative_env :: env where
  "relative_env = example_env\<lparr>APP_ROOT := ''jobs''\<rparr>"

definition relative_world :: world where
  "relative_world =
     \<lparr>w_job = (new_job ''abcdef123'' [''upload'' \<mapsto> ''jobs/myjob/tmp/1234567/data/a.txt''])
                \<lparr>job_id := Some 5, timestamp := Some example_time\<rparr>,
      w_files = [''/media/jobs/myjob/tmp/1234567/data/a.txt'' \<mapsto> ''content''],
      w_dirs = {''/media'', ''/media/jobs'', ''/media/jobs/myjob'', ''/media/jobs/myjob/tmp'',
                ''/media/jobs/myjob/tmp/1234567'', ''/media/jobs/myjob/tmp/1234567/data''},
      w_last_id = 5\<rparr>"

section \<open>Decimal renderings and paths\<close>

lemma digit_char_in: "d < 10 \<Longrightarrow> digit_char d \<in> set ''0123456789''"
  unfolding digit_char_def by (rule nth_mem) simp

lemma digits_nat_small: "n < 10 \<Longrightarrow> digits_nat n = [digit_char n]"
  by (subst digits_nat.simps) simp

lemma digits_nat_set: "set (digits_nat n) \<subseteq> set ''0123456789''"
proof (induction n rule: digits_nat.induct)
  case (1 n)
  show ?case
  proof (cases "n < 10")
    case True
    then show ?thesis using digit_char_in [of n] by (simp add: digits_nat_small)
  next
    case False
    have "digit_char (n mod 10) \<in> set ''0123456789''" by (rule digit_char_in) simp
    with False 1 show ?thesis by (subst digits_nat.simps) simp
  qed
qed

lemma digits_nat_length:
  "10 ^ k \<le> n \<Longrightarrow> n < 10 ^ Suc k \<Longrightarrow> length (digits_nat n) = Suc k"
proof (induction k arbitrary: n)
  case 0
  then show ?case by (simp add: digits_nat_small)
next
  case (Suc k)
  have lo: "10 ^ k \<le> n div 10"
    using Suc.prems by (simp add: less_eq_div_iff_mult_less_eq)
  have hi: "n div 10 < 10 ^ Suc k"
    using Suc.prems by (simp add: div_less_iff_less_mult mult.commute)
  have len: "length (digits_nat (n div 10)) = Suc k"
    using lo hi by (rule Suc.IH)
  have "(10::nat) \<le> 10 ^ Suc k" by simp
  then have "\<not> n < 10" using Suc.prems(1) by linarith
  then show ?case using len by (subst digits_nat.simps) simp
qed

lemma two_digits_length: "n < 100 \<Longrightarrow> length (two_digits n) = 2"
  using digits_nat_length [of 1 n]
  by (cases "n < 10") (auto simp: two_digits_def digits_nat_small)

lemma strftime_length: "valid_datetime t \<Longrightarrow> length (strftime_ymdHM t) = 10"
  by (simp add: strftime_ymdHM_def valid_datetime_def two_digits_length)

lemma two_digits_eq:
  assumes "n < 100"
  shows "two_digits n = [''0123456789'' ! (n div 10), ''0123456789'' ! (n mod 10)]"
proof (cases "n < 10")
  case True
  then show ?thesis by (simp add: two_digits_def digits_nat_small digit_char_def)
next
  case False
  have "n div 10 < 10" using assms by simp
  then have "digits_nat (n div 10) = [digit_char (n div 10)]" by (rule digits_nat_small)
  with False show ?thesis
    by (subst two_digits_def, subst digits_nat.simps) (simp add: digit_char_def)
qed

lemma strftime_format:
  assumes "valid_datetime t"
  shows "strftime_ymdHM t =
           map (\<lambda>n. ''0123456789'' ! n)
             [year t mod 100 div 10, year t mod 10, month t div 10, month t mod 10,
              day t div 10, day t mod 10, hour t div 10, hour t mod 10,
              minute t div 10, minute t mod 10]"
proof -
  have "year t mod 100 < 100" "month t < 100" "day t < 100" "hour t < 100" "minute t < 100"
    using assms by (simp_all add: valid_datetime_def)
  then show ?thesis
    by (simp only: strftime_ymdHM_def two_digits_eq append_Cons append_Nil list.map mod_mod_cancel
          dvd_refl) (simp add: mod_mod_cancel)
qed

lemma randrange_bounds: "a < b \<Longrightarrow> a \<le> randrange a b r \<and> randrange a b r < b"
proof -
  assume "a < b"
  then have p: "0 < b - a" by simp
  have "0 \<le> int r mod (b - a)" "int r mod (b - a) < b - a"
    using p by (rule pos_mod_sign, rule pos_mod_bound)
  then show ?thesis by (simp add: randrange_def)
qed

lemma random_suffix_six_digits:
  "length (str_int (randrange (10 ^ 5) (10 ^ 6) r)) = 6 \<and>
   set (str_int (randrange (10 ^ 5) (10 ^ 6) r)) \<subseteq> set ''0123456789''"
proof -
  let ?v = "randrange (10 ^ 5) (10 ^ 6) r"
  have b: "10 ^ 5 \<le> ?v \<and> ?v < 10 ^ 6" by (rule randrange_bounds) simp
  then have "10 ^ 5 \<le> nat ?v" "nat ?v < 10 ^ Suc 5" by auto
  then have "length (digits_nat (nat ?v)) = Suc 5" by (rule digits_nat_length)
  moreover have "str_int ?v = digits_nat (nat ?v)" using b by (simp add: str_int_def)
  ultimately show ?thesis using digits_nat_set by simp
qed

lemma str_int_set: "set (str_int i) \<subseteq> set ''-0123456789''"
proof -
  have d: "set (digits_nat n) \<subseteq> set ''-0123456789''" for n
    using digits_nat_set [of n] set_subset_Cons [of "''0123456789''" "CHR ''-''"]
    by (rule subset_trans)
  show ?thesis
  proof (cases "i < 0")
    case True
    then have "set (str_int i) = insert CHR ''-'' (set (digits_nat (nat (- i))))"
      by (simp add: str_int_def)
    moreover have "CHR ''-'' \<in> set ''-0123456789''" by simp
    ultimately show ?thesis using d [of "nat (- i)"] by (simp only: insert_subset)
  next
    case False
    then show ?thesis using d [of "nat i"] by (simp only: str_int_def if_False)
  qed
qed

lemma str_int_no_t: "CHR ''t'' \<notin> set (str_int i)"
proof -
  have "CHR ''t'' \<notin> set ''-0123456789''" by simp
  then show ?thesis using str_int_set [of i] by (rule contra_subsetD [rotated])
qed

lemma str_int_no_slash: "CHR ''/'' \<notin> set (str_int i)"
proof -
  have "CHR ''/'' \<notin> set ''-0123456789''" by simp
  then show ?thesis using str_int_set [of i] by (rule contra_subsetD [rotated])
qed

lemma str_int_not_tmp: "''tmp/'' @ s \<noteq> str_int i"
proof
  assume "''tmp/'' @ s = str_int i"
  then have "CHR ''t'' \<in> set (str_int i)" by (metis append_Cons list.set_intros(1))
  then show False using str_int_no_t by simp
qed

lemma str_int_not_tmp_prefix: "\<not> prefix ''tmp/'' (str_int i)"
  using str_int_not_tmp [of _ i] unfolding prefix_def by metis

lemma tmp_tail: "path_join TEMPORARY_JOB_FOLDER (str_int t) = ''tmp/'' @ str_int t"
proof -
  have "\<not> prefix ''/'' (str_int t)"
  proof
    assume "prefix ''/'' (str_int t)"
    then have "CHR ''/'' \<in> set (str_int t)" unfolding prefix_def by auto
    then show False using str_int_no_slash by simp
  qed
  then show ?thesis by (simp add: path_join_def TEMPORARY_JOB_FOLDER_def suffix_def)
qed

lemma path_join_suffix: "suffix b (path_join a b)"
  by (simp add: path_join_def suffix_def)



section \<open>The examples, evaluated\<close>

lemma str_int_examples: "str_int 1234567 = ''1234567''" "str_int 5 = ''5''"
  by (simp_all add: str_int_def digits_nat.simps digit_char_def)

lemma class_examples:
  "class_name MyJobModel = ''MyJob''" "cls_job_root MyJobModel = RNone"
  "upload_to_data MyJobModel = ANone" "upload_to_results MyJobModel = ANone"
  "required_user_files MyJobModel = Some [''upload'']"
  "cls_tmp_id MyJobModel = Some 1234567" "field_upload_to MyJobModel f = JobData"
  "post_save_connected MyJobModel"
  "class_name PairJobModel = ''PairJob''" "cls_job_root PairJobModel = RNone"
  "upload_to_data PairJobModel = ANone" "upload_to_results PairJobModel = ANone"
  "required_user_files PairJobModel = Some [''upload'', ''config'']"
  "cls_tmp_id PairJobModel = Some 1234567" "field_upload_to PairJobModel f = JobData"
  "post_save_connected PairJobModel"
  "class_name AliasedJobModel = ''AliasedJob''" "cls_job_root AliasedJobModel = RNone"
  "upload_to_data AliasedJobModel = ACallable JobData"
  "upload_to_results AliasedJobModel = ACallable JobResults"
  "cls_tmp_id AliasedJobModel = Some 1234567"
  "cls_job_root RootedJobModel = RCallable fixed_root"
  "upload_to_data RootedJobModel = ANone" "upload_to_results RootedJobModel = ANone"
  "required_user_files RootedJobModel = Some [''upload'']"
  "cls_tmp_id RootedJobModel = Some 1234567" "field_upload_to RootedJobModel f = JobData"
  "post_save_connected RootedJobModel"
  by (simp_all add: MyJobModel_def PairJobModel_def AliasedJobModel_def RootedJobModel_def
        RootedJob_def contribute_to_class_def MyJob_def randrange_def)

lemma env_examples:
  "APP_ROOT example_env = ''/media/jobs''" "MEDIA_ROOT example_env = ''/media''"
  "CWD example_env = ''/srv/app''" "TTL example_env = 86400"
  "datetime_add example_env t s = t\<lparr>day := day t + nat (s div 86400)\<rparr>"
  "get_available_name example_env files name = name @ ''_1''"
  by (simp_all add: example_env_def)

lemma head_examples:
  "root_head example_env MyJobModel = ''/media/jobs/myjob''"
  "root_head example_env PairJobModel = ''/media/jobs/pairjob''"
  "root_head example_env AliasedJobModel = ''/media/jobs/aliasedjob''"
  by (simp_all add: root_head_def class_examples env_examples lower_def lower_char_def
        path_join_def suffix_to_prefix)


lemmas eval_paths = root_job_def root_tail_def uses_tmp_def getattr_tmp_id_def truthy_int_def
  truthy_list_def truthy_str_def or_else_def str_id_def TEMPORARY_JOB_FOLDER_def
  path_join_def suffix_to_prefix basename_def job_data.simps job_results.simps
  user_path.simps co_code_def call_upload_to_def head_examples class_examples env_examples
  str_int_examples fixed_root_def root_callable_def

lemmas eval_world = move_to_data_def set_tmp_files_def promote.simps promote_field_def
  storage_save_def storage_delete_def rmtree_def makedirs_def norm_dir_def under_def
  abspath_def storage_path_def path_exists_def
  ancestors_def Let_def insert_row_def post_save_def super_save_def save_def
  example_world_def pair_world_def rooted_world_def new_job_def example_time_def

lemmas eval_jobs = pending_job_def promoted_job_def new_job_def

lemma example_promotion:
  "fst (move_to_data example_env MyJobModel True (insert_row example_time example_world)) = None"
  "job_id (w_job (snd (move_to_data example_env MyJobModel True
                        (insert_row example_time example_world)))) = Some 5"
  "file_names (w_job (snd (move_to_data example_env MyJobModel True
                        (insert_row example_time example_world)))) ''upload''
     = Some ''/media/jobs/myjob/5/data/a.txt''"
  "w_files (snd (move_to_data example_env MyJobModel True
                   (insert_row example_time example_world))) ''/media/jobs/myjob/5/data/a.txt''
     = Some ''content''"
  "w_files (snd (move_to_data example_env MyJobModel True
                   (insert_row example_time example_world)))
           ''/media/jobs/myjob/tmp/1234567/data/a.txt'' = None"
  by (simp_all add: eval_world eval_paths)

section \<open>The default slug\<close>

text \<open>
  C5. For a job with a non-empty identifier and a creation timestamp, the default slug is
  the first 6 characters of the identifier followed by the formatted timestamp; whenever
  that string is longer than 32 characters it is cut to 32 - 6 characters and followed by
  a random suffix, which has exactly 6 decimal digits. The format is YYMMDDHHmm: for a
  timestamp that is a datetime, the formatted timestamp consists of the last two decimal
  digits of the year and the two decimal digits each of the month, the day, the hour and
  the minute, in this order, and the default slug is the first 6 characters of the
  identifier followed by these ten digits.
\<close>

theorem slug_default_identifier:
  assumes "job_identifier self \<noteq> []" and "timestamp self = Some t"
  shows "slug_default cls self r =
           Inr (let slug = take 6 (job_identifier self) @ strftime_ymdHM t in
                if length slug > 32
                then take (32 - 6) slug @ str_int (randrange (10 ^ 5) (10 ^ 6) r)
                else slug)
         \<and> length (str_int (randrange (10 ^ 5) (10 ^ 6) r)) = 6
         \<and> set (str_int (randrange (10 ^ 5) (10 ^ 6) r)) \<subseteq> set ''0123456789''
         \<and> (valid_datetime t \<longrightarrow>
              strftime_ymdHM t =
                map (\<lambda>n. ''0123456789'' ! n)
                  [year t mod 100 div 10, year t mod 10, month t div 10, month t mod 10,
                   day t div 10, day t mod 10, hour t div 10, hour t mod 10,
                   minute t div 10, minute t mod 10] \<and>
              slug_default cls self r =
                Inr (take 6 (job_identifier self) @
                     map (\<lambda>n. ''0123456789'' ! n)
                       [year t mod 100 div 10, year t mod 10, month t div 10, month t mod 10,
                        day t div 10, day t mod 10, hour t div 10, hour t mod 10,
                        minute t div 10, minute t mod 10]))"
proof -
  have a: "slug_default cls self r =
           Inr (let slug = take 6 (job_identifier self) @ strftime_ymdHM t in
                if length slug > 32
                then take (32 - 6) slug @ str_int (randrange (10 ^ 5) (10 ^ 6) r)
                else slug)"
    using assms
    by (simp add: slug_default_def SLUG_MAX_LENGTH_def SLUG_RND_LENGTH_def Let_def min_def)
  have b: "slug_default cls self r = Inr (take 6 (job_identifier self) @ strftime_ymdHM t)"
    if "valid_datetime t"
    using a strftime_length [OF that] by (simp add: Let_def)
  show ?thesis
    using a b random_suffix_six_digits [of r] strftime_format [of t] by simp
qed

theorem slug_default_identifier_witness:
  "job_identifier ((new_job ''abcdef123'' Map.empty)\<lparr>timestamp := Some example_time\<rparr>) \<noteq> [] \<and>
   valid_datetime example_time \<and>
   slug_default MyJob ((new_job ''abcdef123'' Map.empty)\<lparr>timestamp := Some example_time\<rparr>) 0
     = Inr ''abcdef2305011030''"
  using slug_default_identifier
          [of "(new_job ''abcdef123'' Map.empty)\<lparr>timestamp := Some example_time\<rparr>"
              example_time MyJob 0]
  by (simp add: new_job_def example_time_def valid_datetime_def)

text \<open>
  C10. Whenever \<^verbatim>\<open>slug_default\<close> returns a string for a job whose timestamp is a datetime
  (month at most 12, day at most 31, hour below 24, minute below 60), the formatted
  timestamp has 10 characters and the string is the first 6 characters of the identifier,
  or the first character of the class name when the identifier is empty, followed by the
  formatted timestamp: it has at most 16 characters, and it is the same for every random
  draw, so the branch that cuts the slug and appends a random suffix is never taken.
\<close>

theorem slug_default_short:
  assumes "slug_default cls self r = Inr s" and "timestamp self = Some t"
    and "valid_datetime t"
  shows "length s \<le> 16 \<and> length (strftime_ymdHM t) = 10 \<and>
         s = (if job_identifier self = [] then take 1 (class_name cls)
              else take 6 (job_identifier self)) @ strftime_ymdHM t \<and>
         slug_default cls self r' = Inr s"
proof -
  have l: "length (strftime_ymdHM t) = 10" using assms(3) by (rule strftime_length)
  show ?thesis
  proof (cases "job_identifier self = []")
    case True
    with assms l show ?thesis
      by (auto simp: slug_default_def SLUG_MAX_LENGTH_def SLUG_RND_LENGTH_def Let_def
               split: list.splits)
  next
    case False
    with assms l show ?thesis
      by (auto simp: slug_default_def SLUG_MAX_LENGTH_def SLUG_RND_LENGTH_def Let_def min_def)
  qed
qed

theorem slug_default_short_witness:
  "valid_datetime example_time \<and>
   slug_default MyJob ((new_job [] Map.empty)\<lparr>timestamp := Some example_time\<rparr>) 7
     = Inr ''M2305011030'' \<and>
   length ''M2305011030'' \<le> 16 \<and>
   slug_default MyJob ((new_job [] Map.empty)\<lparr>timestamp := Some example_time\<rparr>) 0
     = Inr ''M2305011030''"
proof -
  have v: "valid_datetime example_time"
    by (simp add: valid_datetime_def example_time_def)
  have s: "slug_default MyJob ((new_job [] Map.empty)\<lparr>timestamp := Some example_time\<rparr>) 7
             = Inr ''M2305011030''"
    by (simp add: slug_default_def new_job_def MyJob_def example_time_def strftime_ymdHM_def
          two_digits_def digits_nat.simps digit_char_def SLUG_MAX_LENGTH_def
          SLUG_RND_LENGTH_def)
  have t: "timestamp ((new_job [] Map.empty)\<lparr>timestamp := Some example_time\<rparr>)
             = Some example_time"
    by simp
  from slug_default_short [OF s t v, of 0]
  have "slug_default MyJob ((new_job [] Map.empty)\<lparr>timestamp := Some example_time\<rparr>) 0
          = Inr ''M2305011030''"
    by (elim conjE)
  with v s show ?thesis by simp
qed

section \<open>The root path\<close>

lemma root_job_not_callable:
  "\<not> root_callable cls \<Longrightarrow>
   root_job e cls inst =
     (case root_tail cls inst of Inl err \<Rightarrow> Inl err
      | Inr tail \<Rightarrow> Inr (path_join (root_head e cls) tail))"
  by (auto simp: root_job_def root_callable_def split: root_attr.splits)

lemma root_job_permanent:
  assumes "\<not> root_callable cls" and "\<not> uses_tmp cls i"
  shows "root_job e cls i = Inr (path_join (root_head e cls) (str_id (job_id i)))"
  using assms by (simp add: root_job_not_callable root_tail_def)

lemma move_to_data_exhausted:
  "move_to_data e cls True w = (None, w') \<Longrightarrow> tmp_id (w_job w') = Some 0"
  by (auto simp: move_to_data_def split: option.splits sum.splits prod.splits)

text \<open>
  C7, amended. For every job whose permanent id is unset and whose type does not declare a
  callable \<^verbatim>\<open>job_root\<close>: when the job has a \<^verbatim>\<open>_tmp_id\<close>, \<^verbatim>\<open>root_job\<close> returns the head
  joined with \<^verbatim>\<open>tmp/<temporary_id>\<close>, a path that ends with that tail; without a
  \<^verbatim>\<open>_tmp_id\<close> it raises the assertion error of line 56.
\<close>

theorem root_job_unset_id:
  assumes "\<not> truthy_int (job_id inst)" and "\<not> root_callable cls"
  shows "case getattr_tmp_id cls inst of
           None \<Rightarrow> root_job e cls inst = Inl AssertionError
         | Some t \<Rightarrow>
             root_job e cls inst = Inr (path_join (root_head e cls) (''tmp/'' @ str_int t)) \<and>
             suffix (''tmp/'' @ str_int t) (path_join (root_head e cls) (''tmp/'' @ str_int t))"
  using assms
  by (simp add: root_job_not_callable root_tail_def uses_tmp_def tmp_tail path_join_suffix
           split: option.splits)

theorem root_job_unset_id_witness:
  "\<not> truthy_int (job_id (new_job ''abcdef123'' Map.empty)) \<and> \<not> root_callable MyJobModel \<and>
   root_job example_env MyJobModel (new_job ''abcdef123'' Map.empty)
     = Inr ''/media/jobs/myjob/tmp/1234567'' \<and>
   suffix ''tmp/1234567'' ''/media/jobs/myjob/tmp/1234567''"
proof -
  have h1: "\<not> truthy_int (job_id (new_job ''abcdef123'' Map.empty))"
    by (simp add: new_job_def truthy_int_def)
  have h2: "\<not> root_callable MyJobModel" by (simp add: root_callable_def class_examples)
  have t: "getattr_tmp_id MyJobModel (new_job ''abcdef123'' Map.empty) = Some 1234567"
    by (simp add: getattr_tmp_id_def new_job_def class_examples)
  from root_job_unset_id [OF h1 h2, of example_env] h1 h2 show ?thesis
    by (simp add: t head_examples str_int_examples path_join_def suffix_to_prefix)
qed

text \<open>
  As C7 is written it also covers a type with a callable \<^verbatim>\<open>job_root\<close>. Line 48 returns the
  callable's result as the whole path: for a new job of such a type the path is
  \<^verbatim>\<open>/media/custom\<close>, which does not end with \<^verbatim>\<open>tmp/1234567\<close>.
\<close>

theorem root_job_unset_id_callable_root:
  "job_id (new_job ''abcdef123'' Map.empty) = None \<and>
   getattr_tmp_id RootedJobModel (new_job ''abcdef123'' Map.empty) = Some 1234567 \<and>
   root_job example_env RootedJobModel (new_job ''abcdef123'' Map.empty) = Inr ''/media/custom'' \<and>
   \<not> suffix ''tmp/1234567'' ''/media/custom''"
  by (simp add: eval_paths eval_jobs)

text \<open>
  C8, amended. For every job whose permanent id is set, whose promotion has completed (its
  own \<^verbatim>\<open>_tmp_id\<close> is 0) and whose type does not declare a callable \<^verbatim>\<open>job_root\<close>, the tail
  chosen by \<^verbatim>\<open>root_job\<close> is the decimal rendering of the id, the path returned is the head
  joined with it and ends with it, and the tail does not start with \<^verbatim>\<open>tmp/\<close>.
\<close>

theorem root_job_promoted:
  assumes "job_id inst = Some i" and "i \<noteq> 0" and "tmp_id inst = Some 0"
    and "\<not> root_callable cls"
  shows "root_tail cls inst = Inr (str_int i) \<and>
         root_job e cls inst = Inr (path_join (root_head e cls) (str_int i)) \<and>
         suffix (str_int i) (path_join (root_head e cls) (str_int i)) \<and>
         \<not> prefix ''tmp/'' (str_int i)"
  using assms str_int_not_tmp_prefix [of i]
  by (simp add: root_job_not_callable root_tail_def uses_tmp_def truthy_int_def
        getattr_tmp_id_def str_id_def path_join_suffix)

theorem root_job_promoted_witness:
  "job_id promoted_job = Some 5 \<and> tmp_id promoted_job = Some 0 \<and> \<not> root_callable MyJobModel \<and>
   root_tail MyJobModel promoted_job = Inr ''5'' \<and>
   root_job example_env MyJobModel promoted_job = Inr ''/media/jobs/myjob/5''"
proof -
  have h1: "job_id promoted_job = Some 5" and h3: "tmp_id promoted_job = Some 0"
    by (simp_all add: eval_jobs)
  have h2: "(5::int) \<noteq> 0" by simp
  have h4: "\<not> root_callable MyJobModel" by (simp add: root_callable_def class_examples)
  from root_job_promoted [OF h1 h2 h3 h4, of example_env] h1 h3 h4 show ?thesis
    by (simp add: head_examples str_int_examples path_join_def suffix_to_prefix)
qed

text \<open>
  As C8 is written it also covers a type with a callable \<^verbatim>\<open>job_root\<close>: for a promoted job
  with identity 5 of such a type the path is \<^verbatim>\<open>/media/custom\<close>, which does not end with
  \<^verbatim>\<open>5\<close>.
\<close>

theorem root_job_promoted_callable_root:
  "job_id promoted_job = Some 5 \<and> tmp_id promoted_job = Some 0 \<and>
   root_job example_env RootedJobModel promoted_job = Inr ''/media/custom'' \<and>
   \<not> suffix ''5'' ''/media/custom''"
  by (simp add: eval_paths eval_jobs)

text \<open>
  C1, amended. For every job whose type does not declare a callable \<^verbatim>\<open>job_root\<close>, the path
  of \<^verbatim>\<open>root_job\<close> is the head joined with a tail, and the tail is \<^verbatim>\<open>tmp/<temporary_id>\<close>
  if and only if the id is unset, or the id is set, \<^verbatim>\<open>_tmp_id\<close> is not 0 and the pending
  list is absent or empty (which is the state before the loop of promotion starts and
  after it ends, when the temporary folder is removed); in every other case, so while
  fields are pending and after promotion, the tail is the id. The two tails never
  coincide, and once \<^verbatim>\<open>move_to_data\<close> has completed a promotion the path of the job with
  an id resolves under the id.
\<close>

theorem root_job_tail_selection:
  assumes "\<not> root_callable cls"
  shows "root_job e cls inst =
           (if job_id inst = None \<or> job_id inst = Some 0 \<or>
               (truthy_int (getattr_tmp_id cls inst) \<and>
                (tmp_files inst = None \<or> tmp_files inst = Some []))
            then (case getattr_tmp_id cls inst of
                    None \<Rightarrow> Inl AssertionError
                  | Some t \<Rightarrow> Inr (path_join (root_head e cls) (''tmp/'' @ str_int t)))
            else Inr (path_join (root_head e cls) (str_id (job_id inst)))) \<and>
         (\<forall>t i. ''tmp/'' @ str_int t \<noteq> str_int i) \<and>
         (\<forall>w w'. move_to_data e cls True w = (None, w') \<longrightarrow> truthy_int (job_id (w_job w')) \<longrightarrow>
                 root_job e cls (w_job w') =
                   Inr (path_join (root_head e cls) (str_id (job_id (w_job w')))))"
proof -
  have a: "uses_tmp cls inst \<longleftrightarrow>
           job_id inst = None \<or> job_id inst = Some 0 \<or>
           (truthy_int (getattr_tmp_id cls inst) \<and>
            (tmp_files inst = None \<or> tmp_files inst = Some []))"
    by (auto simp: uses_tmp_def truthy_int_def truthy_list_def split: option.splits)
  have first: "root_job e cls inst =
           (if job_id inst = None \<or> job_id inst = Some 0 \<or>
               (truthy_int (getattr_tmp_id cls inst) \<and>
                (tmp_files inst = None \<or> tmp_files inst = Some []))
            then (case getattr_tmp_id cls inst of
                    None \<Rightarrow> Inl AssertionError
                  | Some t \<Rightarrow> Inr (path_join (root_head e cls) (''tmp/'' @ str_int t)))
            else Inr (path_join (root_head e cls) (str_id (job_id inst))))"
    unfolding a [symmetric] using assms
    by (simp add: root_job_not_callable root_tail_def tmp_tail split: option.splits)
  have third: "root_job e cls (w_job w') =
                 Inr (path_join (root_head e cls) (str_id (job_id (w_job w'))))"
    if "move_to_data e cls True w = (None, w')" and "truthy_int (job_id (w_job w'))" for w w'
  proof -
    have "tmp_id (w_job w') = Some 0" using that(1) by (rule move_to_data_exhausted)
    then have "\<not> uses_tmp cls (w_job w')"
      using that(2) by (simp add: uses_tmp_def getattr_tmp_id_def truthy_int_def)
    with assms show ?thesis by (rule root_job_permanent)
  qed
  show ?thesis using first str_int_not_tmp third by blast
qed

theorem root_job_tail_selection_witness:
  "\<not> root_callable MyJobModel \<and>
   root_job example_env MyJobModel pending_job = Inr ''/media/jobs/myjob/5'' \<and>
   root_job example_env MyJobModel (new_job ''abcdef123'' Map.empty)
     = Inr ''/media/jobs/myjob/tmp/1234567'' \<and>
   root_job example_env MyJobModel
     (w_job (snd (move_to_data example_env MyJobModel True
                    (insert_row example_time example_world))))
     = Inr ''/media/jobs/myjob/5''"
proof -
  let ?w = "insert_row example_time example_world"
  let ?w' = "snd (move_to_data example_env MyJobModel True ?w)"
  have h: "\<not> root_callable MyJobModel" by (simp add: root_callable_def class_examples)
  have m: "move_to_data example_env MyJobModel True ?w = (None, ?w')"
    using example_promotion(1) by (metis prod.collapse)
  have i: "truthy_int (job_id (w_job ?w'))"
    by (simp add: example_promotion(2) truthy_int_def)
  have a: "root_job example_env MyJobModel pending_job = Inr ''/media/jobs/myjob/5''"
    using root_job_tail_selection [OF h, of example_env pending_job]
    by (simp add: eval_jobs getattr_tmp_id_def class_examples truthy_int_def head_examples
          str_id_def str_int_examples path_join_def suffix_to_prefix)
  have b: "root_job example_env MyJobModel (new_job ''abcdef123'' Map.empty)
             = Inr ''/media/jobs/myjob/tmp/1234567''"
    using root_job_tail_selection [OF h, of example_env "new_job ''abcdef123'' Map.empty"]
    by (simp add: eval_jobs getattr_tmp_id_def class_examples truthy_int_def head_examples
          str_int_examples path_join_def suffix_to_prefix)
  have c: "root_job example_env MyJobModel (w_job ?w') = Inr ''/media/jobs/myjob/5''"
    using root_job_tail_selection [OF h, of example_env pending_job] m i
    by (simp add: example_promotion(2) head_examples str_id_def str_int_examples path_join_def
          suffix_to_prefix)
  show ?thesis using h a b c by simp
qed

text \<open>
  As C1 is written, a job with an id and a non-empty pending list resolves under
  \<^verbatim>\<open>tmp/<temporary_id>\<close>. Line 54 tests the opposite, \<^verbatim>\<open>not getattr(instance, '_tmp_files',
  None)\<close>: the job with identity 5 and the field \<^verbatim>\<open>upload\<close> pending resolves under its id.
\<close>

theorem root_job_pending_uses_id:
  "job_id pending_job = Some 5 \<and> tmp_files pending_job = Some [''upload''] \<and>
   getattr_tmp_id MyJobModel pending_job = Some 1234567 \<and>
   root_job example_env MyJobModel pending_job = Inr ''/media/jobs/myjob/5'' \<and>
   \<not> suffix ''tmp/1234567'' ''/media/jobs/myjob/5''"
  by (simp add: eval_paths eval_jobs)

section \<open>Overrides that are the built-in functions\<close>

lemma user_path_builtin:
  "c = JobData \<or> c = JobResults \<Longrightarrow> user_path e cls inst (ACallable c) filename = Inr None"
  by (auto simp: user_path.simps co_code_def)



text \<open>
  C9. When an override is \<^verbatim>\<open>job_data\<close> or \<^verbatim>\<open>job_results\<close> itself, \<^verbatim>\<open>_user_path\<close> does not
  call it and returns \<^verbatim>\<open>None\<close>; the path functions then use the default subfolder:
  \<^verbatim>\<open>job_data\<close> returns the root joined with \<^verbatim>\<open>data/<filename>\<close> and \<^verbatim>\<open>job_results\<close> the
  root joined with \<^verbatim>\<open>results/<filename>\<close>, or the error of \<^verbatim>\<open>root_job\<close>. Both are total
  functions: the recursive call in \<^verbatim>\<open>_user_path\<close> sits behind the guard of line 23, which
  is what their termination proof uses.
\<close>

theorem builtin_override_guard:
  assumes "c = JobData \<or> c = JobResults"
  shows "user_path e cls inst (ACallable c) filename = Inr None \<and>
         (upload_to_data cls = ACallable c \<longrightarrow>
            job_data e cls (AJob j) filename =
              (case root_job e cls j of Inl err \<Rightarrow> Inl err
               | Inr root \<Rightarrow> Inr (path_join root (path_join ''data'' filename)))) \<and>
         (upload_to_results cls = ACallable c \<longrightarrow>
            job_results e cls (AJob j) filename =
              (case root_job e cls j of Inl err \<Rightarrow> Inl err
               | Inr root \<Rightarrow> Inr (path_join root (path_join ''results'' filename))))"
  using user_path_builtin [OF assms]
  by (simp add: job_data.simps job_results.simps or_else_def truthy_str_def split: sum.splits)

theorem builtin_override_guard_witness:
  "upload_to_data AliasedJobModel = ACallable JobData \<and>
   upload_to_results AliasedJobModel = ACallable JobResults \<and>
   job_data example_env AliasedJobModel (AJob (new_job ''abcdef123'' Map.empty)) ''a.txt''
     = Inr ''/media/jobs/aliasedjob/tmp/1234567/data/a.txt'' \<and>
   job_results example_env AliasedJobModel (AJob (new_job ''abcdef123'' Map.empty)) ''out.txt''
     = Inr ''/media/jobs/aliasedjob/tmp/1234567/results/out.txt''"
proof -
  have r: "root_job example_env AliasedJobModel (new_job ''abcdef123'' Map.empty)
             = Inr ''/media/jobs/aliasedjob/tmp/1234567''"
    by (simp add: eval_paths eval_jobs)
  have d: "JobData = JobData \<or> JobData = JobResults" by simp
  have s: "JobResults = JobData \<or> JobResults = JobResults" by simp
  from builtin_override_guard [OF d, of example_env AliasedJobModel _ "''a.txt''"
         "new_job ''abcdef123'' Map.empty"]
  have a: "job_data example_env AliasedJobModel (AJob (new_job ''abcdef123'' Map.empty)) ''a.txt''
     = Inr ''/media/jobs/aliasedjob/tmp/1234567/data/a.txt''"
    by (simp add: class_examples r path_join_def suffix_to_prefix)
  from builtin_override_guard [OF s, of example_env AliasedJobModel _ "''out.txt''"
         "new_job ''abcdef123'' Map.empty"]
  have b: "job_results example_env AliasedJobModel (AJob (new_job ''abcdef123'' Map.empty)) ''out.txt''
     = Inr ''/media/jobs/aliasedjob/tmp/1234567/results/out.txt''"
    by (simp add: class_examples r path_join_def suffix_to_prefix)
  show ?thesis using a b by (simp add: class_examples)
qed

section \<open>The temporary identity\<close>

text \<open>
  C4, amended. The temporary identity is drawn once for each job type, when the manager
  contributes to the model class: it is an integer of \<open>[1000000, 10000000)\<close> stored in the
  class, and every instance that has no \<^verbatim>\<open>_tmp_id\<close> of its own reads that same value, so
  two instances of one type share their temporary identity.
\<close>

theorem temporary_id_per_class:
  assumes "tmp_id j1 = None" and "tmp_id j2 = None"
  shows "\<exists>v. cls_tmp_id (contribute_to_class model r) = Some v \<and>
             10 ^ 6 \<le> v \<and> v < 10 ^ 7 \<and>
             getattr_tmp_id (contribute_to_class model r) j1 = Some v \<and>
             getattr_tmp_id (contribute_to_class model r) j2 = Some v"
  using assms randrange_bounds [of "10 ^ 6" "10 ^ 7" r]
  by (simp add: contribute_to_class_def getattr_tmp_id_def)

theorem temporary_id_per_class_witness:
  "tmp_id (new_job ''first'' Map.empty) = None \<and> tmp_id (new_job ''second'' Map.empty) = None \<and>
   getattr_tmp_id MyJobModel (new_job ''first'' Map.empty) = Some 1234567 \<and>
   getattr_tmp_id MyJobModel (new_job ''second'' Map.empty) = Some 1234567"
proof -
  have h1: "tmp_id (new_job ''first'' Map.empty) = None"
    and h2: "tmp_id (new_job ''second'' Map.empty) = None" by (simp_all add: new_job_def)
  from temporary_id_per_class [OF h1 h2, of MyJob 234567] h1 h2 show ?thesis
    by (simp add: MyJobModel_def [symmetric] class_examples)
qed

text \<open>
  As C4 is written, two instances of one type each have a temporary identity drawn at
  their construction. Constructing a job draws nothing: two different new jobs of the
  example type both read the identity 1234567 of their class.
\<close>

theorem temporary_id_shared:
  "new_job ''first'' Map.empty \<noteq> new_job ''second'' Map.empty \<and>
   cls_tmp_id MyJobModel = Some 1234567 \<and>
   getattr_tmp_id MyJobModel (new_job ''first'' Map.empty) = Some 1234567 \<and>
   getattr_tmp_id MyJobModel (new_job ''second'' Map.empty) = Some 1234567"
  by (simp add: new_job_def getattr_tmp_id_def class_examples)

section \<open>Promotion of the required files\<close>



lemma promote_field_job:
  assumes "promote_field e cls f w = (r, w1)"
  shows "job_id (w_job w1) = job_id (w_job w) \<and> tmp_id (w_job w1) = tmp_id (w_job w) \<and>
         timestamp (w_job w1) = timestamp (w_job w) \<and> closure (w_job w1) = closure (w_job w) \<and>
         w_last_id w1 = w_last_id w"
  using assms
  by (auto simp: promote_field_def Let_def storage_save_def storage_delete_def
           split: option.splits if_splits sum.splits)

lemma promote_job:
  "promote e cls fs w = (r, w1) \<Longrightarrow>
   job_id (w_job w1) = job_id (w_job w) \<and> tmp_id (w_job w1) = tmp_id (w_job w) \<and>
   timestamp (w_job w1) = timestamp (w_job w) \<and> closure (w_job w1) = closure (w_job w) \<and>
   w_last_id w1 = w_last_id w"
proof (induction fs arbitrary: w)
  case Nil
  then show ?case by simp
next
  case (Cons f fs)
  obtain r0 w0 where s: "promote_field e cls f w = (r0, w0)" by (cases "promote_field e cls f w")
  note j = promote_field_job [OF s]
  show ?case
  proof (cases r0)
    case None
    with Cons.prems s have "promote e cls fs w0 = (r, w1)" by simp
    from Cons.IH [OF this] j show ?thesis by simp
  next
    case (Some err)
    with Cons.prems s have "w1 = w0" by simp
    with j show ?thesis by simp
  qed
qed




lemma move_to_data_job:
  assumes "move_to_data e cls created w = (r, w1)"
  shows "job_id (w_job w1) = job_id (w_job w) \<and> timestamp (w_job w1) = timestamp (w_job w) \<and>
         closure (w_job w1) = closure (w_job w) \<and> w_last_id w1 = w_last_id w"
proof (cases "required_user_files cls")
  case None
  with assms show ?thesis by (simp add: move_to_data_def)
next
  case (Some required)
  show ?thesis
  proof (cases created)
    case False
    with assms Some show ?thesis by (simp add: move_to_data_def)
  next
    case True
    obtain r0 w0 where p: "promote e cls required (set_tmp_files required w) = (r0, w0)"
      by (cases "promote e cls required (set_tmp_files required w)")
    have j: "job_id (w_job w0) = job_id (w_job w) \<and> timestamp (w_job w0) = timestamp (w_job w) \<and>
             closure (w_job w0) = closure (w_job w) \<and> w_last_id w0 = w_last_id w"
      using promote_job [OF p] by (simp add: set_tmp_files_def)
    from assms Some True p j show ?thesis
      by (auto simp: move_to_data_def rmtree_def split: option.splits sum.splits if_splits)
  qed
qed











text \<open>
  The storage resolves names against \<^verbatim>\<open>MEDIA_ROOT\<close> and line 145 resolves the root of the
  job against the working directory. With a relative \<^verbatim>\<open>APP_ROOT\<close> the two differ: the
  file is promoted below \<^verbatim>\<open>MEDIA_ROOT\<close>, \<^verbatim>\<open>rmtree\<close> then finds no folder to remove, and
  the temporary folder of the storage stays.
\<close>

lemma relative_root_not_found:
  "fst (move_to_data relative_env MyJobModel True relative_world)
     = Some (OSError ''jobs/myjob/tmp/1234567'')"
  "stored_content relative_env (snd (move_to_data relative_env MyJobModel True relative_world))
     ''jobs/myjob/5/data/a.txt'' = Some ''content''"
  "w_files (snd (move_to_data relative_env MyJobModel True relative_world))
     ''/media/jobs/myjob/5/data/a.txt'' = Some ''content''"
  "''/media/jobs/myjob/tmp/1234567''
     \<in> w_dirs (snd (move_to_data relative_env MyJobModel True relative_world))"
  by (simp_all add: relative_env_def relative_world_def example_env_def root_head_def lower_def
        lower_char_def stored_content_def eval_world eval_paths)




section \<open>Saving a job\<close>

lemma post_save_job:
  assumes "post_save e cls created w = (r, w1)"
  shows "job_id (w_job w1) = job_id (w_job w) \<and> timestamp (w_job w1) = timestamp (w_job w) \<and>
         closure (w_job w1) = closure (w_job w) \<and> w_last_id w1 = w_last_id w"
proof (cases "post_save_connected cls")
  case True
  with assms have "move_to_data e cls created w = (r, w1)" by (simp add: post_save_def)
  then show ?thesis by (rule move_to_data_job)
next
  case False
  with assms show ?thesis by (simp add: post_save_def)
qed

lemma super_save_update:
  assumes "super_save e cls now w = (r, w1)" and "job_id (w_job w) \<noteq> None"
  shows "job_id (w_job w1) = job_id (w_job w) \<and> timestamp (w_job w1) = timestamp (w_job w) \<and>
         closure (w_job w1) = closure (w_job w)"
proof -
  from assms have "post_save e cls False w = (r, w1)"
    by (auto simp: super_save_def split: option.splits)
  from post_save_job [OF this] show ?thesis by simp
qed

lemma super_save_insert:
  assumes "super_save e cls now w = (r, w1)" and "job_id (w_job w) = None"
  shows "job_id (w_job w1) = Some (int (Suc (w_last_id w))) \<and> timestamp (w_job w1) = Some now \<and>
         closure (w_job w1) = closure (w_job w)"
proof -
  from assms have "post_save e cls True (insert_row now w) = (r, w1)"
    by (simp add: super_save_def)
  from post_save_job [OF this] show ?thesis by (simp add: insert_row_def)
qed

lemma super_save_id:
  assumes "super_save e cls now w = (r, w1)"
  shows "job_id (w_job w1) \<noteq> None"
  using super_save_update [OF assms] super_save_insert [OF assms]
  by (cases "job_id (w_job w)") auto

lemma makedirs_job: "makedirs e p ok w = Inr w1 \<Longrightarrow> w_job w1 = w_job w"
  by (auto simp: makedirs_def split: if_splits)



text \<open>
  C6. When the save of a job that had no id completes, the job's closure is its timestamp
  plus the time to live, whatever the time to live is.
\<close>

theorem save_sets_closure:
  assumes "\<not> truthy_int (job_id (w_job w))" and "save e cls now results_exist_ok w = (None, w')"
  shows "\<exists>t. timestamp (w_job w') = Some t \<and>
             closure (w_job w') = Some (datetime_add e t (TTL e))"
proof -
  obtain r1 w1 where s1: "super_save e cls now w = (r1, w1)" by (cases "super_save e cls now w")
  have r1: "r1 = None" using assms s1 by (cases r1) (simp_all add: save_def)
  obtain t where t: "timestamp (w_job w1) = Some t"
    using assms s1 r1 by (cases "timestamp (w_job w1)") (simp_all add: save_def)
  define w1c where "w1c = w1\<lparr>w_job := (w_job w1)\<lparr>closure := Some (datetime_add e t (TTL e))\<rparr>\<rparr>"
  obtain r2 w2 where s2: "super_save e cls now w1c = (r2, w2)" by (cases "super_save e cls now w1c")
  have r2: "r2 = None" using assms s1 r1 t s2 by (cases r2) (simp_all add: save_def w1c_def)
  have "job_id (w_job w1c) \<noteq> None" using super_save_id [OF s1] by (simp add: w1c_def)
  from super_save_update [OF s2 this]
  have j2: "timestamp (w_job w2) = Some t" "closure (w_job w2) = Some (datetime_add e t (TTL e))"
    using t by (simp_all add: w1c_def)
  have "w_job w' = w_job w2"
    using assms s1 r1 t s2 r2
    by (auto simp: save_def w1c_def split: sum.splits dest: makedirs_job)
  with j2 show ?thesis by simp
qed

theorem save_sets_closure_witness:
  "\<not> truthy_int (job_id (w_job example_world)) \<and>
   fst (save example_env MyJobModel example_time False example_world) = None \<and>
   timestamp (w_job (snd (save example_env MyJobModel example_time False example_world)))
     = Some example_time \<and>
   closure (w_job (snd (save example_env MyJobModel example_time False example_world)))
     = Some (example_time\<lparr>day := 2\<rparr>)"
proof -
  let ?w' = "snd (save example_env MyJobModel example_time False example_world)"
  have h: "\<not> truthy_int (job_id (w_job example_world))"
    by (simp add: example_world_def new_job_def truthy_int_def)
  have f: "fst (save example_env MyJobModel example_time False example_world) = None"
    by (simp add: eval_world eval_paths)
  then have s: "save example_env MyJobModel example_time False example_world = (None, ?w')"
    by (metis prod.collapse)
  have t: "timestamp (w_job ?w') = Some example_time"
    by (simp add: eval_world eval_paths)
  from save_sets_closure [OF h s] t h f show ?thesis
    by (simp add: env_examples example_time_def)
qed

end
